theory Spec2Isabelle
  imports Main "HOL-Library.Sublist" "HOL-Library.Multiset"
begin

section \<open>JavaScript values that the stores see\<close>

text \<open>
  A value caught by \<open>catch (e)\<close>: either an \<open>Error\<close> object with its \<open>name\<close> and
  \<open>message\<close>, or some other value, kept as the text \<open>String(e)\<close> gives for it.
\<close>

datatype thrown = ErrorObj string string | OtherThrown string

text \<open>\<open>e instanceof Error\<close>.\<close>

fun instanceofError :: "thrown \<Rightarrow> bool" where
  "instanceofError (ErrorObj n m) = True"
| "instanceofError (OtherThrown t) = False"

text \<open>
  \<open>String(e)\<close>. For an \<open>Error\<close> this is \<open>Error.prototype.toString\<close>: the name alone
  when the message is empty, the message alone when the name is empty, and
  \<open>name: message\<close> otherwise.
\<close>

fun String :: "thrown \<Rightarrow> string" where
  "String (ErrorObj n m) = (if n = [] then m else if m = [] then n else n @ '': '' @ m)"
| "String (OtherThrown t) = t"

text \<open>The result of an awaited backend call: rejected with a value, or resolved.\<close>

type_synonym 'a outcome = "thrown + 'a"

section \<open>The MCP library store\<close>

text \<open>
  The \<open>Mcp\<close> interface comes from the application's type module; the record holds the
  fields the store reads or writes, and the record's extension slot stands for all the
  others. Identifiers are the backend's integers.
\<close>

record Mcp =
  id' :: int
  name :: string
  description :: "string option"
  tags :: "string list option"
  type' :: string
  isFavorite :: bool
  isEnabledGlobal :: bool

record 'a McpLibraryState =
  mcps :: "'a Mcp_scheme list"
  isLoading :: bool
  error :: "string option"
  searchQuery :: string
  selectedType :: string

subsection \<open>load\<close>

text \<open>
  \<open>load\<close> runs up to its \<open>await\<close> (\<open>load_begin\<close>), is suspended while the backend
  works, and resumes with the outcome of \<open>get_all_mcps\<close> (\<open>load_resume\<close>): the \<open>try\<close>
  assigns the list, the \<open>catch\<close> stores \<open>String(e)\<close>, the \<open>finally\<close> clears the flag.
  The result says whether the call returned (\<open>Inr\<close>) or threw (\<open>Inl\<close>).
\<close>

definition load_begin :: "'a McpLibraryState \<Rightarrow> 'a McpLibraryState" where
  "load_begin s = s\<lparr>isLoading := True, error := None\<rparr>"

definition load_resume ::
  "'a Mcp_scheme list outcome \<Rightarrow> 'a McpLibraryState \<Rightarrow> 'a McpLibraryState \<times> unit outcome" where
  "load_resume r s =
     (let s1 = (case r of
                  Inr ms \<Rightarrow> s\<lparr>mcps := ms\<rparr>
                | Inl e \<Rightarrow> s\<lparr>error := Some (String e)\<rparr>)
      in (s1\<lparr>isLoading := False\<rparr>, Inr ()))"

definition load ::
  "'a Mcp_scheme list outcome \<Rightarrow> 'a McpLibraryState \<Rightarrow> 'a McpLibraryState \<times> unit outcome" where
  "load r s = load_resume r (load_begin s)"

subsection \<open>Mutations\<close>

text \<open>
  Each mutation awaits one backend call with no \<open>try\<close> around it: a rejection leaves
  the method at the \<open>await\<close> and reaches the caller, with the state as it was.
\<close>

definition create ::
  "'a Mcp_scheme outcome \<Rightarrow> 'a McpLibraryState \<Rightarrow> 'a McpLibraryState \<times> 'a Mcp_scheme outcome" where
  "create r s =
     (case r of
        Inl e \<Rightarrow> (s, Inl e)
      | Inr mcp \<Rightarrow> (s\<lparr>mcps := mcps s @ [mcp]\<rparr>, Inr mcp))"

definition update ::
  "int \<Rightarrow> 'a Mcp_scheme outcome \<Rightarrow> 'a McpLibraryState \<Rightarrow> 'a McpLibraryState \<times> 'a Mcp_scheme outcome" where
  "update i r s =
     (case r of
        Inl e \<Rightarrow> (s, Inl e)
      | Inr mcp \<Rightarrow> (s\<lparr>mcps := map (\<lambda>m. if id' m = i then mcp else m) (mcps s)\<rparr>, Inr mcp))"

definition delete ::
  "int \<Rightarrow> unit outcome \<Rightarrow> 'a McpLibraryState \<Rightarrow> 'a McpLibraryState \<times> unit outcome" where
  "delete i r s =
     (case r of
        Inl e \<Rightarrow> (s, Inl e)
      | Inr u \<Rightarrow> (s\<lparr>mcps := filter (\<lambda>m. id' m \<noteq> i) (mcps s)\<rparr>, Inr ()))"

definition duplicate ::
  "int \<Rightarrow> 'a Mcp_scheme outcome \<Rightarrow> 'a McpLibraryState \<Rightarrow> 'a McpLibraryState \<times> 'a Mcp_scheme outcome" where
  "duplicate i r s =
     (case r of
        Inl e \<Rightarrow> (s, Inl e)
      | Inr mcp \<Rightarrow> (s\<lparr>mcps := mcps s @ [mcp]\<rparr>, Inr mcp))"

definition toggleGlobal ::
  "int \<Rightarrow> bool \<Rightarrow> unit outcome \<Rightarrow> 'a McpLibraryState \<Rightarrow> 'a McpLibraryState \<times> unit outcome" where
  "toggleGlobal i enabled r s =
     (case r of
        Inl e \<Rightarrow> (s, Inl e)
      | Inr u \<Rightarrow>
          (s\<lparr>mcps := map (\<lambda>m. if id' m = i then m\<lparr>isEnabledGlobal := enabled\<rparr> else m) (mcps s)\<rparr>,
           Inr ()))"

text \<open>\<open>updateMcp\<close>, \<open>setSearch\<close> and \<open>setTypeFilter\<close> are plain assignments.\<close>

definition updateMcp :: "'a Mcp_scheme \<Rightarrow> 'a McpLibraryState \<Rightarrow> 'a McpLibraryState" where
  "updateMcp mcp s = s\<lparr>mcps := map (\<lambda>m. if id' m = id' mcp then mcp else m) (mcps s)\<rparr>"

definition setSearch :: "string \<Rightarrow> 'a McpLibraryState \<Rightarrow> 'a McpLibraryState" where
  "setSearch query s = s\<lparr>searchQuery := query\<rparr>"

definition setTypeFilter :: "string \<Rightarrow> 'a McpLibraryState \<Rightarrow> 'a McpLibraryState" where
  "setTypeFilter t s = s\<lparr>selectedType := t\<rparr>"

subsection \<open>The filtered and sorted view\<close>














section \<open>The projects store\<close>

text \<open>The project and global-MCP records are opaque to the two loaders.\<close>

record ('p, 'g) ProjectsState =
  projects :: "'p list"
  globalMcps :: "'g list"
  isLoading :: bool
  error :: "string option"

definition loadProjects_begin :: "('p, 'g) ProjectsState \<Rightarrow> ('p, 'g) ProjectsState" where
  "loadProjects_begin s = s\<lparr>isLoading := True, error := None\<rparr>"

definition loadProjects_resume ::
  "'p list outcome \<Rightarrow> ('p, 'g) ProjectsState \<Rightarrow> ('p, 'g) ProjectsState \<times> unit outcome" where
  "loadProjects_resume r s =
     (let s1 = (case r of
                  Inr ps \<Rightarrow> s\<lparr>projects := ps\<rparr>
                | Inl e \<Rightarrow> s\<lparr>error := Some (String e)\<rparr>)
      in (s1\<lparr>isLoading := False\<rparr>, Inr ()))"

definition loadProjects ::
  "'p list outcome \<Rightarrow> ('p, 'g) ProjectsState \<Rightarrow> ('p, 'g) ProjectsState \<times> unit outcome" where
  "loadProjects r s = loadProjects_resume r (loadProjects_begin s)"

text \<open>
  \<open>loadGlobalMcps\<close> assigns nothing before its \<open>await\<close>; its \<open>catch\<close> only prints, and it
  has no \<open>finally\<close>.
\<close>

definition loadGlobalMcps_begin :: "('p, 'g) ProjectsState \<Rightarrow> ('p, 'g) ProjectsState" where
  "loadGlobalMcps_begin s = s"

definition loadGlobalMcps_resume ::
  "'g list outcome \<Rightarrow> ('p, 'g) ProjectsState \<Rightarrow> ('p, 'g) ProjectsState \<times> unit outcome" where
  "loadGlobalMcps_resume r s =
     (case r of
        Inr gs \<Rightarrow> (s\<lparr>globalMcps := gs\<rparr>, Inr ())
      | Inl e \<Rightarrow> (s, Inr ()))"

definition loadGlobalMcps ::
  "'g list outcome \<Rightarrow> ('p, 'g) ProjectsState \<Rightarrow> ('p, 'g) ProjectsState \<times> unit outcome" where
  "loadGlobalMcps r s = loadGlobalMcps_resume r (loadGlobalMcps_begin s)"

section \<open>Regular expressions and \<open>String.prototype.replace\<close>\<close>

text \<open>
  The part of the regular expression language that the source uses: literal text,
  character classes, greedy and lazy repetition, an optional item, numbered capture
  groups, \<open>^\<close> and \<open>$\<close> under the \<open>m\<close> flag (\<open>Bol\<close>, \<open>Eol\<close>) and \<open>^\<close> without it
  (\<open>Start\<close>). \<open>Star True\<close> is the greedy \<open>*\<close>, \<open>Star False\<close> the lazy \<open>*?\<close>. Of the line
  terminators, the 8-bit characters used here have the line feed and the carriage
  return.
\<close>

datatype cls = Dot | AnyChar | WordChar | NoneOf "char list"

definition isLineTerminator :: "char \<Rightarrow> bool" where
  "isLineTerminator c = (c = CHR 0x0A \<or> c = CHR 0x0D)"

definition isWordChar :: "char \<Rightarrow> bool" where
  "isWordChar c =
     (let n = (of_char c :: nat)
      in (48 \<le> n \<and> n \<le> 57) \<or> (65 \<le> n \<and> n \<le> 90) \<or> (97 \<le> n \<and> n \<le> 122) \<or> n = 95)"

fun in_cls :: "cls \<Rightarrow> char \<Rightarrow> bool" where
  "in_cls Dot c = (\<not> isLineTerminator c)"
| "in_cls AnyChar c = True"
| "in_cls WordChar c = isWordChar c"
| "in_cls (NoneOf cs) c = (c \<notin> set cs)"

datatype re = Lit string | Cls cls | Seq re re | Star bool re | Opt re | Group nat re
  | Bol | Eol | Start

text \<open>
  A position of the matcher: the text still ahead, the character just behind (none at
  the start of the input), and the groups captured so far, latest first.
\<close>

record mstate =
  rest :: string
  prev :: "char option"
  caps :: "(nat \<times> string) list"

text \<open>
  A backtracking matcher tries its alternatives in a fixed order and takes the first
  that lets the whole expression match. \<open>matches r s\<close> lists, in that order, every
  position \<open>r\<close> can end at when started at \<open>s\<close>; the head of the list is the matcher's
  answer. A repetition does not repeat an iteration that consumed nothing, so it makes at
  most as many iterations as there are characters ahead.
\<close>

fun iter :: "bool \<Rightarrow> (mstate \<Rightarrow> mstate list) \<Rightarrow> nat \<Rightarrow> mstate \<Rightarrow> mstate list" where
  "iter g f 0 s = [s]"
| "iter g f (Suc n) s =
     (let more = concat (map (iter g f n)
                   (filter (\<lambda>t. length (rest t) < length (rest s)) (f s)))
      in if g then more @ [s] else s # more)"

primrec matches :: "re \<Rightarrow> mstate \<Rightarrow> mstate list" where
  "matches (Lit w) = (\<lambda>s.
     if w = [] then [s]
     else if prefix w (rest s) then [s\<lparr>rest := drop (length w) (rest s), prev := Some (last w)\<rparr>]
     else [])"
| "matches (Cls c) = (\<lambda>s.
     case rest s of
       [] \<Rightarrow> []
     | x # xs \<Rightarrow> if in_cls c x then [s\<lparr>rest := xs, prev := Some x\<rparr>] else [])"
| "matches (Seq a b) = (\<lambda>s. concat (map (matches b) (matches a s)))"
| "matches (Star g a) = (\<lambda>s. iter g (matches a) (length (rest s)) s)"
| "matches (Opt a) = (\<lambda>s. matches a s @ [s])"
| "matches (Group k a) = (\<lambda>s.
     map (\<lambda>t. t\<lparr>caps := (k, take (length (rest s) - length (rest t)) (rest s)) # caps t\<rparr>)
       (matches a s))"
| "matches Bol = (\<lambda>s.
     case prev s of None \<Rightarrow> [s] | Some c \<Rightarrow> if isLineTerminator c then [s] else [])"
| "matches Eol = (\<lambda>s.
     case rest s of [] \<Rightarrow> [s] | c # cs \<Rightarrow> if isLineTerminator c then [s] else [])"
| "matches Start = (\<lambda>s. case prev s of None \<Rightarrow> [s] | Some c \<Rightarrow> [])"

text \<open>One attempt at one position of the input.\<close>

definition exec :: "re \<Rightarrow> char option \<Rightarrow> string \<Rightarrow> mstate option" where
  "exec r p s =
     (case matches r \<lparr>rest = s, prev = p, caps = []\<rparr> of [] \<Rightarrow> None | m # ms \<Rightarrow> Some m)"

text \<open>\<open>a+\<close> is \<open>a\<close> followed by \<open>a*\<close>; a sequence of several items nests \<open>Seq\<close>.\<close>

definition Plus' :: "bool \<Rightarrow> re \<Rightarrow> re" where
  "Plus' g r = Seq r (Star g r)"

fun seqs :: "re list \<Rightarrow> re" where
  "seqs [] = Lit []"
| "seqs [r] = r"
| "seqs (r # rs) = Seq r (seqs rs)"

text \<open>
  A replacement is a function of the matched text and the captures. A replacement
  string is such a function: \<open>$1\<close>, \<open>$2\<close> stand for a group (empty when it did not
  take part), \<open>$&\<close> for the whole match.
\<close>

datatype rpart = RLit string | RGroup nat | RWhole

fun expand :: "rpart list \<Rightarrow> string \<Rightarrow> (nat \<times> string) list \<Rightarrow> string" where
  "expand [] m cs = []"
| "expand (RLit w # ps) m cs = w @ expand ps m cs"
| "expand (RGroup k # ps) m cs =
     (case map_of cs k of None \<Rightarrow> [] | Some w \<Rightarrow> w) @ expand ps m cs"
| "expand (RWhole # ps) m cs = m @ expand ps m cs"

text \<open>
  \<open>replace\<close> with the \<open>g\<close> flag: the leftmost match from the current position is
  replaced and the search goes on behind it; text that no match covers is copied. After
  an empty match the search moves on by one character.
\<close>

function replace_g ::
  "re \<Rightarrow> (string \<Rightarrow> (nat \<times> string) list \<Rightarrow> string) \<Rightarrow> char option \<Rightarrow> string \<Rightarrow> string" where
  "replace_g r f p s =
     (case exec r p s of
        None \<Rightarrow> (case s of [] \<Rightarrow> [] | c # cs \<Rightarrow> c # replace_g r f (Some c) cs)
      | Some m \<Rightarrow>
          (let n = length s - length (rest m)
           in f (take n s) (caps m) @
              (if 0 < n then replace_g r f (prev m) (drop n s)
               else (case s of [] \<Rightarrow> [] | c # cs \<Rightarrow> c # replace_g r f (Some c) cs))))"
  by pat_completeness auto
termination
  by (relation "measure (\<lambda>(r, f, p, s). length s)") auto

text \<open>\<open>replace\<close> without the \<open>g\<close> flag: only the leftmost match is replaced.\<close>

fun replace_1 ::
  "re \<Rightarrow> (string \<Rightarrow> (nat \<times> string) list \<Rightarrow> string) \<Rightarrow> char option \<Rightarrow> string \<Rightarrow> string" where
  "replace_1 r f p [] = (case exec r p [] of None \<Rightarrow> [] | Some m \<Rightarrow> f [] (caps m))"
| "replace_1 r f p (c # cs) =
     (case exec r p (c # cs) of
        None \<Rightarrow> c # replace_1 r f (Some c) cs
      | Some m \<Rightarrow>
          (let n = length (c # cs) - length (rest m)
           in f (take n (c # cs)) (caps m) @ drop n (c # cs)))"

text \<open>\<open>s.slice(a, b)\<close>: a negative index counts from the end.\<close>

definition slice :: "int \<Rightarrow> int \<Rightarrow> string \<Rightarrow> string" where
  "slice a b s =
     (let n = int (length s);
          from = (if a < 0 then max (n + a) 0 else min a n);
          to = (if b < 0 then max (n + b) 0 else min b n)
      in take (nat (to - from)) (drop (nat from) s))"

section \<open>The release notification store\<close>

definition LAST_SEEN_VERSION_KEY :: string where
  "LAST_SEEN_VERSION_KEY = ''claude-tool-manager-last-seen-version''"

definition GITHUB_REPO :: string where
  "GITHUB_REPO = ''tylergraydev/claude-code-tool-manager''"

record ReleaseInfo =
  version :: string
  name :: string
  body :: string
  publishedAt :: string
  htmlUrl :: string

text \<open>The object that \<open>parseRelease\<close> takes, as its parameter type declares it.\<close>

record ReleaseData =
  tag_name :: string
  name :: string
  body :: string
  published_at :: string
  html_url :: string

text \<open>
  What \<open>await fetch(url)\<close> gives: a rejection, or a response with its \<open>ok\<close> flag and
  with what \<open>await response.json()\<close> would give.
\<close>

datatype fetch_outcome = FetchRejected thrown | Response bool "ReleaseData outcome"

text \<open>
  The surroundings of the store: the application version, the network, and the clock
  read by \<open>new Date().toISOString()\<close>.
\<close>

record env =
  getVersion :: "string outcome"
  fetch :: "string \<Rightarrow> fetch_outcome"
  now :: string

text \<open>
  The four fields of the store, and with them the two things outside it that its
  methods act on: the local storage, and the requests sent so far, in order.
\<close>

record WhatsNewState =
  isOpen :: bool
  isLoading :: bool
  release :: "ReleaseInfo option"
  error :: "string option"

record WhatsNewWorld = WhatsNewState +
  localStorage :: "string \<rightharpoonup> string"
  requests :: "string list"

fun message :: "thrown \<Rightarrow> string" where
  "message (ErrorObj n m) = m"
| "message (OtherThrown t) = []"

definition parseRelease :: "ReleaseData \<Rightarrow> ReleaseInfo" where
  "parseRelease data =
     \<lparr>version = replace_1 (Seq Start (Lit ''v'')) (expand []) None (tag_name data),
      name = (if ReleaseData.name data \<noteq> [] then ReleaseData.name data
              else ''Version '' @ tag_name data),
      body = (if ReleaseData.body data \<noteq> [] then ReleaseData.body data
              else ''No release notes available.''),
      publishedAt = published_at data,
      htmlUrl = html_url data\<rparr>"

definition taggedUrl :: "string \<Rightarrow> string" where
  "taggedUrl v = ''https://api.github.com/repos/'' @ GITHUB_REPO @ ''/releases/tags/v'' @ v"

definition untaggedUrl :: "string \<Rightarrow> string" where
  "untaggedUrl v = ''https://api.github.com/repos/'' @ GITHUB_REPO @ ''/releases/tags/'' @ v"

text \<open>The body of the \<open>try\<close> in \<open>fetchReleaseNotes\<close>: it completes or throws.\<close>

definition fetchReleaseNotes_try :: "env \<Rightarrow> string \<Rightarrow> WhatsNewWorld \<Rightarrow> WhatsNewWorld \<times> unit outcome" where
  "fetchReleaseNotes_try e v s =
     (let s1 = s\<lparr>requests := requests s @ [taggedUrl v]\<rparr>
      in case fetch e (taggedUrl v) of
           FetchRejected x \<Rightarrow> (s1, Inl x)
         | Response ok js \<Rightarrow>
             if \<not> ok then
               (let s2 = s1\<lparr>requests := requests s1 @ [untaggedUrl v]\<rparr>
                in case fetch e (untaggedUrl v) of
                     FetchRejected x \<Rightarrow> (s2, Inl x)
                   | Response altOk altJs \<Rightarrow>
                       if \<not> altOk then (s2, Inl (ErrorObj ''Error'' ''Release not found''))
                       else (case altJs of
                               Inl x \<Rightarrow> (s2, Inl x)
                             | Inr data \<Rightarrow> (s2\<lparr>release := Some (parseRelease data)\<rparr>, Inr ())))
             else (case js of
                     Inl x \<Rightarrow> (s1, Inl x)
                   | Inr data \<Rightarrow> (s1\<lparr>release := Some (parseRelease data)\<rparr>, Inr ())))"

definition fallbackRelease :: "env \<Rightarrow> string \<Rightarrow> ReleaseInfo" where
  \<open>fallbackRelease e v =
     \<lparr>version = v,
      name = ''Version '' @ v,
      body = ''You've been updated to the latest version! Check the GitHub releases page for details.'',
      publishedAt = now e,
      htmlUrl = ''https://github.com/'' @ GITHUB_REPO @ ''/releases''\<rparr>\<close>

definition fetchReleaseNotes :: "env \<Rightarrow> string \<Rightarrow> WhatsNewWorld \<Rightarrow> WhatsNewWorld" where
  "fetchReleaseNotes e v s =
     (let s0 = s\<lparr>isLoading := True, error := None\<rparr>;
          (s1, r) = fetchReleaseNotes_try e v s0;
          s2 = (case r of
                  Inr u \<Rightarrow> s1
                | Inl x \<Rightarrow>
                    s1\<lparr>error := Some (if instanceofError x then message x
                                        else ''Failed to fetch release notes''),
                       release := Some (fallbackRelease e v)\<rparr>)
      in s2\<lparr>isLoading := False\<rparr>)"

text \<open>
  \<open>!lastSeenVersion\<close> holds for a missing entry and for the empty string. A failure of
  \<open>getVersion\<close> is caught and printed.
\<close>

definition checkForWhatsNew :: "env \<Rightarrow> WhatsNewWorld \<Rightarrow> WhatsNewWorld" where
  "checkForWhatsNew e s =
     (case getVersion e of
        Inl x \<Rightarrow> s
      | Inr currentVersion \<Rightarrow>
          (let lastSeenVersion = localStorage s LAST_SEEN_VERSION_KEY
           in if lastSeenVersion = None \<or> lastSeenVersion = Some []
              then s\<lparr>localStorage := (localStorage s)(LAST_SEEN_VERSION_KEY \<mapsto> currentVersion)\<rparr>
              else if lastSeenVersion = Some currentVersion then s
              else (fetchReleaseNotes e currentVersion s)\<lparr>isOpen := True\<rparr>))"

definition dismiss :: "WhatsNewWorld \<Rightarrow> WhatsNewWorld" where
  "dismiss s =
     (let s1 = s\<lparr>isOpen := False\<rparr>
      in case release s1 of
           None \<Rightarrow> s1
         | Some r \<Rightarrow> s1\<lparr>localStorage := (localStorage s1)(LAST_SEEN_VERSION_KEY \<mapsto> version r)\<rparr>)"

definition showCurrentReleaseNotes :: "env \<Rightarrow> WhatsNewWorld \<Rightarrow> WhatsNewWorld" where
  "showCurrentReleaseNotes e s =
     (case getVersion e of
        Inl x \<Rightarrow> s
      | Inr currentVersion \<Rightarrow> (fetchReleaseNotes e currentVersion s)\<lparr>isOpen := True\<rparr>)"

section \<open>The console interceptor\<close>

text \<open>
  An argument of a console call, as \<open>formatArgs\<close> tells them apart: a string, an
  \<open>Error\<close> with its name and message, a value with the text \<open>JSON.stringify\<close> gives for
  it, and a value on which \<open>JSON.stringify\<close> throws, with the text \<open>String\<close> gives.
\<close>

datatype jsval = JString string | JError string string | JJson string | JUnserializable string

fun formatArg :: "jsval \<Rightarrow> string" where
  "formatArg (JString s) = s"
| "formatArg (JError n m) = n @ '': '' @ m"
| "formatArg (JJson t) = t"
| "formatArg (JUnserializable t) = t"

fun join :: "string \<Rightarrow> string list \<Rightarrow> string" where
  "join sep [] = []"
| "join sep [x] = x"
| "join sep (x # y # ys) = x @ sep @ join sep (y # ys)"

definition formatArgs :: "jsval list \<Rightarrow> string" where
  "formatArgs args = join '' '' (map formatArg args)"

text \<open>
  What console functions act on: the debug store's flag and the \<open>write_frontend_log\<close>
  calls issued so far (level and message); the extension slot is everything else, such
  as the terminal that the native console writes to.
\<close>

record Runtime =
  debugStore_isEnabled :: bool
  write_frontend_log :: "(string \<times> string) list"

definition sendToBackend :: "string \<Rightarrow> string \<Rightarrow> 'a Runtime_scheme \<Rightarrow> 'a Runtime_scheme" where
  "sendToBackend level msg w =
     (if \<not> debugStore_isEnabled w then w
      else w\<lparr>write_frontend_log := write_frontend_log w @ [(level, msg)]\<rparr>)"

record 'w Console =
  log :: "jsval list \<Rightarrow> 'w \<Rightarrow> 'w"
  warn :: "jsval list \<Rightarrow> 'w \<Rightarrow> 'w"
  error :: "jsval list \<Rightarrow> 'w \<Rightarrow> 'w"
  info :: "jsval list \<Rightarrow> 'w \<Rightarrow> 'w"

text \<open>
  The module's state: the global \<open>console\<close> (its other members are the extension
  slot), the four functions saved in \<open>originalConsole\<close> when the module was loaded, and
  the flag.
\<close>

record ('a, 'c) Interceptor =
  console :: "('a Runtime_scheme, 'c) Console_scheme"
  originalConsole :: "'a Runtime_scheme Console"
  interceptorInstalled :: bool
  runtime :: "'a Runtime_scheme"

text \<open>The function that \<open>install\<close> puts in place of a console function.\<close>

definition wrapper ::
  "string \<Rightarrow> (jsval list \<Rightarrow> 'a Runtime_scheme \<Rightarrow> 'a Runtime_scheme)
     \<Rightarrow> jsval list \<Rightarrow> 'a Runtime_scheme \<Rightarrow> 'a Runtime_scheme" where
  "wrapper level original args w = sendToBackend level (formatArgs args) (original args w)"

definition installDebugInterceptor :: "('a, 'c) Interceptor \<Rightarrow> ('a, 'c) Interceptor" where
  "installDebugInterceptor s =
     (if interceptorInstalled s then s
      else s\<lparr>console := (console s)
                \<lparr>log := wrapper ''INFO'' (log (originalConsole s)),
                 warn := wrapper ''WARN'' (warn (originalConsole s)),
                 error := wrapper ''ERROR'' (error (originalConsole s)),
                 info := wrapper ''INFO'' (info (originalConsole s))\<rparr>,
              interceptorInstalled := True,
              runtime := log (originalConsole s) [JString ''[Debug] Console interceptor installed'']
                           (runtime s)\<rparr>)"

definition uninstallDebugInterceptor :: "('a, 'c) Interceptor \<Rightarrow> ('a, 'c) Interceptor" where
  "uninstallDebugInterceptor s =
     (if \<not> interceptorInstalled s then s
      else s\<lparr>console := (console s)
                \<lparr>log := log (originalConsole s),
                 warn := warn (originalConsole s),
                 error := error (originalConsole s),
                 info := info (originalConsole s)\<rparr>,
              interceptorInstalled := False,
              runtime := log (originalConsole s) [JString ''[Debug] Console interceptor uninstalled'']
                           (runtime s)\<rparr>)"

definition isInterceptorInstalled :: "('a, 'c) Interceptor \<Rightarrow> bool" where
  "isInterceptorInstalled s = interceptorInstalled s"

section \<open>Rendering a release body\<close>

text \<open>The function given to the code-block substitution.\<close>

definition codeBlock :: "string \<Rightarrow> (nat \<times> string) list \<Rightarrow> string" where
  \<open>codeBlock m cs =
     (let code = replace_1 (seqs [Start, Plus' True (Cls WordChar), Lit ''\<newline>'']) (expand []) None
                   (slice 3 (- 3) m)
      in ''<pre class="bg-gray-100 dark:bg-gray-800 rounded p-2 text-xs overflow-x-auto my-2"><code>''
         @ code @ ''</code></pre>'')\<close>

text \<open>The chain of substitutions, in the order of the source.\<close>

definition renderMarkdown :: "string \<Rightarrow> string" where
  \<open>renderMarkdown text =
    (let
      t = replace_g (seqs [Bol, Lit ''### '', Group 1 (Plus' True (Cls Dot)), Eol])
            (expand [RLit ''<h4 class="text-sm font-semibold text-gray-900 dark:text-white mt-4 mb-2">'',
                     RGroup 1, RLit ''</h4>'']) None text;
      t = replace_g (seqs [Bol, Lit ''## '', Group 1 (Plus' True (Cls Dot)), Eol])
            (expand [RLit ''<h3 class="text-base font-semibold text-gray-900 dark:text-white mt-4 mb-2">'',
                     RGroup 1, RLit ''</h3>'']) None t;
      t = replace_g (seqs [Bol, Lit ''# '', Group 1 (Plus' True (Cls Dot)), Eol])
            (expand [RLit ''<h2 class="text-lg font-bold text-gray-900 dark:text-white mt-4 mb-2">'',
                     RGroup 1, RLit ''</h2>'']) None t;
      t = replace_g (seqs [Lit ''**'', Group 1 (Plus' False (Cls Dot)), Lit ''**''])
            (expand [RLit ''<strong class="font-semibold">'', RGroup 1, RLit ''</strong>'']) None t;
      t = replace_g (seqs [Lit ''*'', Group 1 (Plus' False (Cls Dot)), Lit ''*''])
            (expand [RLit ''<em>'', RGroup 1, RLit ''</em>'']) None t;
      t = replace_g (seqs [Lit ''```'', Star False (Cls AnyChar), Lit ''```'']) codeBlock None t;
      t = replace_g (seqs [Lit ''`'', Group 1 (Plus' True (Cls (NoneOf ''`''))), Lit ''`''])
            (expand [RLit ''<code class="bg-gray-100 dark:bg-gray-800 px-1 py-0.5 rounded text-sm">'',
                     RGroup 1, RLit ''</code>'']) None t;
      t = replace_g (seqs [Lit ''['', Group 1 (Plus' True (Cls (NoneOf '']''))), Lit '']('',
                           Group 2 (Plus' True (Cls (NoneOf '')''))), Lit '')''])
            (expand [RLit ''<a href="'', RGroup 2,
                     RLit ''" class="text-primary-600 hover:underline" target="_blank" rel="noopener">'',
                     RGroup 1, RLit ''</a>'']) None t;
      t = replace_g (seqs [Bol, Lit ''- '', Group 1 (Plus' True (Cls Dot)), Eol])
            (expand [RLit ''<li class="ml-4 list-disc">'', RGroup 1, RLit ''</li>'']) None t;
      t = replace_g (Plus' True (Group 1 (seqs [Lit ''<li'', Star True (Cls (NoneOf ''>'')), Lit ''>'',
                           Star True (Cls Dot), Lit ''</li>'', Opt (Lit ''\<newline>'')])))
            (expand [RLit ''<ul class="my-2 space-y-1">'', RWhole, RLit ''</ul>'']) None t;
      t = replace_g (Lit ''\<newline>\<newline>'') (expand [RLit ''</p><p class="my-2">'']) None t;
      t = replace_g (Lit ''\<newline>'') (expand [RLit ''<br>'']) None t
    in t)\<close>

section \<open>Sample data\<close>


definition mcpA :: Mcp where
  "mcpA = \<lparr>id' = 1, name = ''test-mcp-1'', description = None, tags = None,
            type' = ''stdio'', isFavorite = False, isEnabledGlobal = False\<rparr>"

definition mcpB :: Mcp where
  "mcpB = \<lparr>id' = 2, name = ''other-mcp'', description = Some ''A Test server'', tags = Some [],
            type' = ''http'', isFavorite = True, isEnabledGlobal = False\<rparr>"

definition mcpC :: Mcp where
  "mcpC = \<lparr>id' = 3, name = ''alpha'', description = None, tags = Some [''db''],
            type' = ''sse'', isFavorite = True, isEnabledGlobal = True\<rparr>"

definition mcpD :: Mcp where
  "mcpD = \<lparr>id' = 4, name = ''attic'', description = Some ''files'', tags = Some [''fs'', ''Latest''],
            type' = ''stdio'', isFavorite = False, isEnabledGlobal = False\<rparr>"



definition sampleLibrary :: "unit McpLibraryState" where
  "sampleLibrary = \<lparr>mcps = [mcpA, mcpB, mcpC, mcpD], isLoading = False, error = None,
                     searchQuery = ''TEST'', selectedType = ''all''\<rparr>"

text \<open>A network on which no release is found, and two worlds of the notification store.\<close>

definition sampleEnv :: env where
  "sampleEnv = \<lparr>getVersion = Inr ''1.2.0'',
                 fetch = (\<lambda>url. Response False (Inl (OtherThrown ''Not Found''))),
                 now = ''2025-01-01T00:00:00.000Z''\<rparr>"

definition freshWorld :: WhatsNewWorld where
  "freshWorld = \<lparr>isOpen = False, isLoading = False, release = None, error = None,
                  localStorage = Map.empty, requests = []\<rparr>"

definition seenWorld :: WhatsNewWorld where
  "seenWorld = \<lparr>isOpen = True, isLoading = False,
                 release = Some \<lparr>version = ''1.1.0'', name = ''Version 1.1.0'', body = ''Fixes'',
                                  publishedAt = ''2024-12-01T00:00:00.000Z'',
                                  htmlUrl = ''https://github.com/tylergraydev/claude-code-tool-manager/releases''\<rparr>,
                 error = None,
                 localStorage = [LAST_SEEN_VERSION_KEY \<mapsto> ''1.2.0''], requests = []\<rparr>"

text \<open>
  A page whose native console functions do nothing to the runtime, with the interceptor
  not installed.
\<close>

definition samplePage :: "(unit, unit) Interceptor" where
  "samplePage =
     \<lparr>console = \<lparr>log = (\<lambda>args w. w), warn = (\<lambda>args w. w),
                   error = (\<lambda>args w. w), info = (\<lambda>args w. w)\<rparr>,
      originalConsole = \<lparr>log = (\<lambda>args w. w), warn = (\<lambda>args w. w),
                           error = (\<lambda>args w. w), info = (\<lambda>args w. w)\<rparr>,
      interceptorInstalled = False,
      runtime = \<lparr>debugStore_isEnabled = True, write_frontend_log = []\<rparr>\<rparr>"

text \<open>A network that answers the tagged request with 404 and then drops the connection.\<close>

definition offlineEnv :: env where
  "offlineEnv = \<lparr>getVersion = Inr ''1.2.0'',
                  fetch = (\<lambda>url. if url = taggedUrl ''1.2.0''
                                 then Response False (Inl (OtherThrown ''Not Found''))
                                 else FetchRejected (ErrorObj ''TypeError'' ''Failed to fetch'')),
                  now = ''2025-01-01T00:00:00.000Z''\<rparr>"

text \<open>
  A network that rejects the second request with an \<open>Error\<close> whose message is empty, and
  one on which only the untagged request finds the release.
\<close>

definition emptyMessageEnv :: env where
  "emptyMessageEnv = \<lparr>getVersion = Inr ''1.2.0'',
                  fetch = (\<lambda>url. if url = taggedUrl ''1.2.0''
                                 then Response False (Inl (OtherThrown ''Not Found''))
                                 else FetchRejected (ErrorObj ''Error'' [])),
                  now = ''2025-01-01T00:00:00.000Z''\<rparr>"

definition sampleData :: ReleaseData where
  "sampleData = \<lparr>tag_name = ''v1.2.0'', name = [], body = ''Notes'',
                  published_at = ''2024-12-24T00:00:00.000Z'',
                  html_url = ''https://github.com/tylergraydev/claude-code-tool-manager/releases/tag/1.2.0''\<rparr>"

definition untaggedOnlyEnv :: env where
  "untaggedOnlyEnv = \<lparr>getVersion = Inr ''1.2.0'',
                  fetch = (\<lambda>url. if url = taggedUrl ''1.2.0''
                                 then Response False (Inl (OtherThrown ''Not Found''))
                                 else Response True (Inr sampleData)),
                  now = ''2025-01-01T00:00:00.000Z''\<rparr>"

section \<open>The matcher consumes its input\<close>

text \<open>
  Two facts behind the definitions above. The bound on the iterations of a repetition
  is never what stops it: any larger bound gives the same list. And every position the
  matcher ends at lies ahead in the text it started from, so the length that \<open>replace\<close>
  computes for a match is the length of the text the match covers.
\<close>

lemma iter_fuel: "length (rest s) \<le> n \<Longrightarrow> iter g f n s = iter g f (length (rest s)) s"
proof (induction n arbitrary: s rule: less_induct)
  case (less n)
  show ?case
  proof (cases n)
    case 0
    with less.prems show ?thesis by simp
  next
    case (Suc n')
    show ?thesis
    proof (cases "length (rest s)")
      case 0
      then have "filter (\<lambda>t. length (rest t) < length (rest s)) (f s) = []"
        by simp
      with 0 Suc show ?thesis by (simp add: Let_def)
    next
      case (Suc k)
      with less.prems \<open>n = Suc n'\<close> have kn: "k \<le> n'" by simp
      have eq: "map (iter g f n') (filter (\<lambda>t. length (rest t) < length (rest s)) (f s))
          = map (iter g f k) (filter (\<lambda>t. length (rest t) < length (rest s)) (f s))"
      proof (rule map_cong[OF refl])
        fix t assume "t \<in> set (filter (\<lambda>t. length (rest t) < length (rest s)) (f s))"
        with Suc have lt: "length (rest t) \<le> k" by simp
        with kn have "length (rest t) \<le> n'" by simp
        with less.IH[of n' t] \<open>n = Suc n'\<close> have a: "iter g f n' t = iter g f (length (rest t)) t"
          by simp
        from lt kn \<open>n = Suc n'\<close> less.IH[of k t] have b: "iter g f k t = iter g f (length (rest t)) t"
          by simp
        from a b show "iter g f n' t = iter g f k t" by simp
      qed
      have "iter g f (Suc n') s = iter g f (Suc k) s"
        by (simp only: iter.simps eq)
      with Suc \<open>n = Suc n'\<close> show ?thesis by simp
    qed
  qed
qed

lemma iter_consumes:
  assumes f: "\<And>s t. t \<in> set (f s) \<Longrightarrow> suffix (rest t) (rest s)"
  shows "t \<in> set (iter g f n s) \<Longrightarrow> suffix (rest t) (rest s)"
proof (induction n arbitrary: s t)
  case 0
  then show ?case by simp
next
  case (Suc n)
  from Suc.prems consider "t = s"
    | u where "u \<in> set (f s)" "t \<in> set (iter g f n u)"
    by (auto simp: Let_def split: if_splits)
  then show ?case
  proof cases
    case 1
    then show ?thesis by simp
  next
    case 2
    from Suc.IH[OF 2(2)] f[OF 2(1)] show ?thesis
      by (rule suffix_order.trans)
  qed
qed

lemma matches_consumes: "t \<in> set (matches r s) \<Longrightarrow> suffix (rest t) (rest s)"
proof (induction r arbitrary: s t)
  case (Lit w)
  then show ?case by (auto simp: suffix_drop split: if_splits)
next
  case (Cls c)
  then show ?case
    by (cases "rest s") (auto simp: suffix_Cons split: if_splits)
next
  case (Seq a b)
  then obtain u where "u \<in> set (matches a s)" "t \<in> set (matches b u)" by auto
  with Seq.IH show ?case by (blast intro: suffix_order.trans)
next
  case (Star g a)
  then show ?case using iter_consumes[of "matches a"] by simp
next
  case (Opt a)
  then show ?case by auto
next
  case (Group k a)
  then show ?case by auto
next
  case Bol
  then show ?case by (auto split: option.splits if_splits)
next
  case Eol
  then show ?case by (auto split: list.splits if_splits)
next
  case Start
  then show ?case by (auto split: option.splits)
qed

lemma exec_consumes:
  assumes "exec r p s = Some m"
  shows "s = take (length s - length (rest m)) s @ rest m"
proof -
  from assms have "m \<in> set (matches r \<lparr>rest = s, prev = p, caps = []\<rparr>)"
    by (auto simp: exec_def split: list.splits)
  from matches_consumes[OF this] obtain w where "s = w @ rest m"
    by (auto simp: suffix_def)
  then show ?thesis
    by (metis add_diff_cancel_right' append_eq_conv_conj length_append)
qed

section \<open>Rendering: emphasis inside a fenced code block\<close>

text \<open>
  Claim C1 says that the order of the substitutions keeps the bold and italic rules
  away from the contents of a fenced code block. In \<open>renderMarkdown\<close> the bold and
  italic substitutions run before the code-block substitution, on the whole text. The
  two bodies below are a fenced block holding \<open>a*b*c\<close> and one holding \<open>**a**\<close>: the
  rendered block holds \<open>a<em>b</em>c\<close> and \<open><strong ...>a</strong>\<close>, not the text
  that was fenced.
\<close>

theorem renderMarkdown_emphasis_inside_code_block:
  \<open>renderMarkdown ''```js\<newline>a*b*c\<newline>```'' =
     ''<pre class="bg-gray-100 dark:bg-gray-800 rounded p-2 text-xs overflow-x-auto my-2"><code>a<em>b</em>c<br></code></pre>''
   \<and> renderMarkdown ''```\<newline>**a**\<newline>```'' =
     ''<pre class="bg-gray-100 dark:bg-gray-800 rounded p-2 text-xs overflow-x-auto my-2"><code><br><strong class="font-semibold">a</strong><br></code></pre>''\<close>
  by code_simp

section \<open>Release notes: the fallback after two failed lookups\<close>

lemma urls_differ: "taggedUrl v \<noteq> untaggedUrl v"
proof
  assume "taggedUrl v = untaggedUrl v"
  then have "length (taggedUrl v) = length (untaggedUrl v)" by simp
  then show False by (simp add: taggedUrl_def untaggedUrl_def)
qed

lemma fetchReleaseNotes_isLoading: "WhatsNewState.isLoading (fetchReleaseNotes e v s) = False"
  by (simp add: fetchReleaseNotes_def Let_def split: prod.splits sum.splits)

lemma fetch_try_not_ok:
  assumes "fetch e (taggedUrl v) = Response False js"
  shows "fetchReleaseNotes_try e v s =
    (case fetch e (untaggedUrl v) of
       FetchRejected x \<Rightarrow> (s\<lparr>requests := requests s @ [taggedUrl v, untaggedUrl v]\<rparr>, Inl x)
     | Response altOk altJs \<Rightarrow>
         if \<not> altOk then (s\<lparr>requests := requests s @ [taggedUrl v, untaggedUrl v]\<rparr>,
                           Inl (ErrorObj ''Error'' ''Release not found''))
         else (case altJs of
                 Inl x \<Rightarrow> (s\<lparr>requests := requests s @ [taggedUrl v, untaggedUrl v]\<rparr>, Inl x)
               | Inr data \<Rightarrow> (s\<lparr>requests := requests s @ [taggedUrl v, untaggedUrl v],
                                release := Some (parseRelease data)\<rparr>, Inr ())))"
  using assms
  by (simp add: fetchReleaseNotes_try_def Let_def split: fetch_outcome.splits sum.splits)

lemma fetch_requests_not_ok:
  assumes "fetch e (taggedUrl v) = Response False js"
  shows "requests (fetchReleaseNotes e v s) = requests s @ [taggedUrl v, untaggedUrl v]"
  by (simp add: fetchReleaseNotes_def fetch_try_not_ok[OF assms] Let_def
        split: fetch_outcome.splits sum.splits)

lemma fetch_count_not_ok:
  assumes "fetch e (taggedUrl v) = Response False js"
  shows "count_list (requests (fetchReleaseNotes e v s)) (untaggedUrl v)
           = count_list (requests s) (untaggedUrl v) + 1"
  using urls_differ[of v] by (simp add: fetch_requests_not_ok[OF assms])

lemma fetch_both_not_ok:
  assumes "fetch e (taggedUrl v) = Response False js"
    and "fetch e (untaggedUrl v) = Response False js'"
  shows "release (fetchReleaseNotes e v s) = Some (fallbackRelease e v)
     \<and> WhatsNewState.error (fetchReleaseNotes e v s) = Some ''Release not found''"
  by (simp add: fetchReleaseNotes_def fetch_try_not_ok[OF assms(1)] assms(2) Let_def)

lemma fetch_second_rejected:
  assumes "fetch e (taggedUrl v) = Response False js"
    and "fetch e (untaggedUrl v) = FetchRejected x"
  shows "release (fetchReleaseNotes e v s) = Some (fallbackRelease e v)
     \<and> WhatsNewState.error (fetchReleaseNotes e v s)
         = Some (if instanceofError x then message x else ''Failed to fetch release notes'')"
  by (simp add: fetchReleaseNotes_def fetch_try_not_ok[OF assms(1)] assms(2) Let_def)

lemma fetch_second_json_rejected:
  assumes "fetch e (taggedUrl v) = Response False js"
    and "fetch e (untaggedUrl v) = Response True (Inl x)"
  shows "release (fetchReleaseNotes e v s) = Some (fallbackRelease e v)
     \<and> WhatsNewState.error (fetchReleaseNotes e v s)
         = Some (if instanceofError x then message x else ''Failed to fetch release notes'')"
  by (simp add: fetchReleaseNotes_def fetch_try_not_ok[OF assms(1)] assms(2) Let_def)

lemma fetch_second_ok:
  assumes "fetch e (taggedUrl v) = Response False js"
    and "fetch e (untaggedUrl v) = Response True (Inr d)"
  shows "release (fetchReleaseNotes e v s) = Some (parseRelease d)
     \<and> WhatsNewState.error (fetchReleaseNotes e v s) = None"
  by (simp add: fetchReleaseNotes_def fetch_try_not_ok[OF assms(1)] assms(2) Let_def)

text \<open>
  Claim C2, as stated, fails where it says the error message is never empty. The tagged
  request gets a response that is not ok and the untagged request is rejected with an
  \<open>Error\<close> whose message is empty: \<open>release\<close> holds the fallback record, and \<open>error\<close>
  holds that empty message.
\<close>

theorem fetchReleaseNotes_empty_error_message:
  "fetch emptyMessageEnv (taggedUrl ''1.2.0'') = Response False (Inl (OtherThrown ''Not Found''))
   \<and> fetch emptyMessageEnv (untaggedUrl ''1.2.0'') = FetchRejected (ErrorObj ''Error'' [])
   \<and> release (fetchReleaseNotes emptyMessageEnv ''1.2.0'' freshWorld)
       = Some (fallbackRelease emptyMessageEnv ''1.2.0'')
   \<and> WhatsNewState.error (fetchReleaseNotes emptyMessageEnv ''1.2.0'' freshWorld) = Some []"
proof -
  have a: "fetch emptyMessageEnv (taggedUrl ''1.2.0'') = Response False (Inl (OtherThrown ''Not Found''))"
    by (simp add: emptyMessageEnv_def)
  have b: "fetch emptyMessageEnv (untaggedUrl ''1.2.0'') = FetchRejected (ErrorObj ''Error'' [])"
    using urls_differ[of "''1.2.0''"] by (simp add: emptyMessageEnv_def)
  from fetch_second_rejected[OF a b, of freshWorld] a b show ?thesis
    by simp
qed

text \<open>
  Claim C2, amended. \<open>isLoading\<close> is false when \<open>fetchReleaseNotes\<close> returns, whatever the
  network did. When the tagged request gets a response that is not ok, the requests sent
  are the tagged one and then the untagged one, once each. When the untagged request
  fails too, \<open>release\<close> holds the fallback record (the requested version,
  \<open>Version <version>\<close> as title, the generic body, the current time, the releases page)
  and \<open>error\<close> holds a message: \<open>Release not found\<close> after a response that is not ok;
  after a rejected request, or a response whose \<open>json()\<close> is rejected, the message of the
  thrown \<open>Error\<close> as it is, or \<open>Failed to fetch release notes\<close> when what was thrown is no
  \<open>Error\<close>. That message is empty only when an \<open>Error\<close> with an empty message was
  thrown. When the untagged request succeeds, \<open>release\<close> holds the parsed release and
  \<open>error\<close> stays cleared.
\<close>

theorem fetchReleaseNotes_fallback:
  "WhatsNewState.isLoading (fetchReleaseNotes e v s) = False
   \<and> (fetch e (taggedUrl v) = Response False js \<longrightarrow>
        requests (fetchReleaseNotes e v s) = requests s @ [taggedUrl v, untaggedUrl v]
        \<and> count_list (requests (fetchReleaseNotes e v s)) (untaggedUrl v)
            = count_list (requests s) (untaggedUrl v) + 1
        \<and> (fetch e (untaggedUrl v) = Response False js' \<longrightarrow>
             release (fetchReleaseNotes e v s) = Some (fallbackRelease e v)
             \<and> WhatsNewState.error (fetchReleaseNotes e v s) = Some ''Release not found'')
        \<and> (fetch e (untaggedUrl v) = FetchRejected x
            \<or> fetch e (untaggedUrl v) = Response True (Inl x) \<longrightarrow>
             release (fetchReleaseNotes e v s) = Some (fallbackRelease e v)
             \<and> WhatsNewState.error (fetchReleaseNotes e v s)
                 = Some (if instanceofError x then message x else ''Failed to fetch release notes'')
             \<and> (WhatsNewState.error (fetchReleaseNotes e v s) = Some []
                  \<longleftrightarrow> instanceofError x \<and> message x = []))
        \<and> (fetch e (untaggedUrl v) = Response True (Inr d) \<longrightarrow>
             release (fetchReleaseNotes e v s) = Some (parseRelease d)
             \<and> WhatsNewState.error (fetchReleaseNotes e v s) = None))
   \<and> version (fallbackRelease e v) = v
   \<and> ReleaseInfo.name (fallbackRelease e v) = ''Version '' @ v
   \<and> ReleaseInfo.body (fallbackRelease e v) \<noteq> []
   \<and> publishedAt (fallbackRelease e v) = now e
   \<and> htmlUrl (fallbackRelease e v) = ''https://github.com/tylergraydev/claude-code-tool-manager/releases''"
proof -
  have f: "version (fallbackRelease e v) = v
   \<and> ReleaseInfo.name (fallbackRelease e v) = ''Version '' @ v
   \<and> ReleaseInfo.body (fallbackRelease e v) \<noteq> []
   \<and> publishedAt (fallbackRelease e v) = now e
   \<and> htmlUrl (fallbackRelease e v) = ''https://github.com/tylergraydev/claude-code-tool-manager/releases''"
    by (simp add: fallbackRelease_def GITHUB_REPO_def)
  show ?thesis
    using f fetchReleaseNotes_isLoading[of e v s] fetch_requests_not_ok[of e v js s]
      fetch_count_not_ok[of e v js s] fetch_both_not_ok[of e v js js' s]
      fetch_second_rejected[of e v js x s] fetch_second_json_rejected[of e v js x s]
      fetch_second_ok[of e v js d s]
    by (auto split: if_splits)
qed

theorem fetchReleaseNotes_fallback_witness:
  "fetch sampleEnv (taggedUrl ''1.2.0'') = Response False (Inl (OtherThrown ''Not Found''))
   \<and> fetch sampleEnv (untaggedUrl ''1.2.0'') = Response False (Inl (OtherThrown ''Not Found''))
   \<and> requests (fetchReleaseNotes sampleEnv ''1.2.0'' freshWorld)
       = [taggedUrl ''1.2.0'', untaggedUrl ''1.2.0'']
   \<and> release (fetchReleaseNotes sampleEnv ''1.2.0'' freshWorld)
       = Some (fallbackRelease sampleEnv ''1.2.0'')
   \<and> WhatsNewState.error (fetchReleaseNotes sampleEnv ''1.2.0'' freshWorld)
       = Some ''Release not found''
   \<and> WhatsNewState.isLoading (fetchReleaseNotes sampleEnv ''1.2.0'' freshWorld) = False
   \<and> fetch offlineEnv (taggedUrl ''1.2.0'') = Response False (Inl (OtherThrown ''Not Found''))
   \<and> fetch offlineEnv (untaggedUrl ''1.2.0'') = FetchRejected (ErrorObj ''TypeError'' ''Failed to fetch'')
   \<and> release (fetchReleaseNotes offlineEnv ''1.2.0'' freshWorld)
       = Some (fallbackRelease offlineEnv ''1.2.0'')
   \<and> WhatsNewState.error (fetchReleaseNotes offlineEnv ''1.2.0'' freshWorld)
       = Some ''Failed to fetch''
   \<and> fetch untaggedOnlyEnv (taggedUrl ''1.2.0'') = Response False (Inl (OtherThrown ''Not Found''))
   \<and> fetch untaggedOnlyEnv (untaggedUrl ''1.2.0'') = Response True (Inr sampleData)
   \<and> release (fetchReleaseNotes untaggedOnlyEnv ''1.2.0'' freshWorld) = Some (parseRelease sampleData)
   \<and> WhatsNewState.error (fetchReleaseNotes untaggedOnlyEnv ''1.2.0'' freshWorld) = None
   \<and> version (parseRelease sampleData) = ''1.2.0''"
proof -
  have a: "fetch sampleEnv (taggedUrl ''1.2.0'') = Response False (Inl (OtherThrown ''Not Found''))"
    and b: "fetch sampleEnv (untaggedUrl ''1.2.0'') = Response False (Inl (OtherThrown ''Not Found''))"
    by (simp_all add: sampleEnv_def)
  have c: "fetch offlineEnv (taggedUrl ''1.2.0'') = Response False (Inl (OtherThrown ''Not Found''))"
    by (simp add: offlineEnv_def)
  have d: "fetch offlineEnv (untaggedUrl ''1.2.0'') = FetchRejected (ErrorObj ''TypeError'' ''Failed to fetch'')"
    using urls_differ[of "''1.2.0''"] by (simp add: offlineEnv_def)
  have g: "fetch untaggedOnlyEnv (taggedUrl ''1.2.0'') = Response False (Inl (OtherThrown ''Not Found''))"
    by (simp add: untaggedOnlyEnv_def)
  have h: "fetch untaggedOnlyEnv (untaggedUrl ''1.2.0'') = Response True (Inr sampleData)"
    using urls_differ[of "''1.2.0''"] by (simp add: untaggedOnlyEnv_def)
  have p: "version (parseRelease sampleData) = ''1.2.0''"
    by code_simp
  have r: "requests freshWorld = []"
    by (simp add: freshWorld_def)
  show ?thesis
    using a b c d g h p r
      fetchReleaseNotes_fallback[where e = sampleEnv and v = "''1.2.0''" and s = freshWorld
        and js = "Inl (OtherThrown ''Not Found'')" and js' = "Inl (OtherThrown ''Not Found'')"
        and x = "OtherThrown []" and d = sampleData]
      fetchReleaseNotes_fallback[where e = offlineEnv and v = "''1.2.0''" and s = freshWorld
        and js = "Inl (OtherThrown ''Not Found'')" and js' = "Inl (OtherThrown ''Not Found'')"
        and x = "ErrorObj ''TypeError'' ''Failed to fetch''" and d = sampleData]
      fetchReleaseNotes_fallback[where e = untaggedOnlyEnv and v = "''1.2.0''" and s = freshWorld
        and js = "Inl (OtherThrown ''Not Found'')" and js' = "Inl (OtherThrown ''Not Found'')"
        and x = "OtherThrown []" and d = sampleData]
    by simp
qed

section \<open>Entity stores: loading\<close>

text \<open>
  Claim C3, as stated, fails for \<open>loadGlobalMcps\<close>: that loader has no \<open>error\<close> and no
  \<open>isLoading\<close> assignment. With the projects still loading (\<open>isLoading\<close> true) and the
  backend rejecting with the text \<open>backend down\<close>, \<open>error\<close> is not the text of the failure
  after the call, and \<open>isLoading\<close> is not false.
\<close>

theorem loadGlobalMcps_keeps_error_and_flag:
  "ProjectsState.error (fst (loadGlobalMcps (Inl (OtherThrown ''backend down''))
      \<lparr>projects = [] :: unit list, globalMcps = [] :: unit list, isLoading = True, error = None\<rparr>))
    \<noteq> Some (String (OtherThrown ''backend down''))
   \<and> ProjectsState.isLoading (fst (loadGlobalMcps (Inl (OtherThrown ''backend down''))
      \<lparr>projects = [] :: unit list, globalMcps = [] :: unit list, isLoading = True, error = None\<rparr>))
    \<noteq> False"
  by (simp add: loadGlobalMcps_def loadGlobalMcps_begin_def loadGlobalMcps_resume_def)

text \<open>
  Claim C3, amended. For every outcome of the backend call, none of \<open>mcpLibrary.load\<close>,
  \<open>loadProjects\<close> and \<open>loadGlobalMcps\<close> throws. \<open>mcpLibrary.load\<close> and \<open>loadProjects\<close> clear
  \<open>error\<close> and raise \<open>isLoading\<close> before the backend is awaited; on return \<open>isLoading\<close> is
  false, a failure has put \<open>String(e)\<close> into \<open>error\<close> and left the cache alone, and a
  success has replaced the cache and left \<open>error\<close> cleared. \<open>loadGlobalMcps\<close> changes
  nothing before the \<open>await\<close>; a failure leaves the whole store as it was (it is only
  printed), and a success replaces \<open>globalMcps\<close> and nothing else.
\<close>

theorem load_failure_policy:
  "snd (load r s) = Inr () \<and> snd (loadProjects r' p) = Inr () \<and> snd (loadGlobalMcps r'' p) = Inr ()
   \<and> McpLibraryState.error (load_begin s) = None
   \<and> McpLibraryState.isLoading (load_begin s) = True
   \<and> McpLibraryState.isLoading (fst (load r s)) = False
   \<and> McpLibraryState.error (fst (load (Inl e) s)) = Some (String e)
   \<and> mcps (fst (load (Inl e) s)) = mcps s
   \<and> McpLibraryState.error (fst (load (Inr ms) s)) = None
   \<and> mcps (fst (load (Inr ms) s)) = ms
   \<and> ProjectsState.error (loadProjects_begin p) = None
   \<and> ProjectsState.isLoading (loadProjects_begin p) = True
   \<and> ProjectsState.isLoading (fst (loadProjects r' p)) = False
   \<and> ProjectsState.error (fst (loadProjects (Inl e) p)) = Some (String e)
   \<and> projects (fst (loadProjects (Inl e) p)) = projects p
   \<and> ProjectsState.error (fst (loadProjects (Inr ps) p)) = None
   \<and> projects (fst (loadProjects (Inr ps) p)) = ps
   \<and> loadGlobalMcps_begin p = p
   \<and> fst (loadGlobalMcps (Inl e) p) = p
   \<and> fst (loadGlobalMcps (Inr gs) p) = p\<lparr>globalMcps := gs\<rparr>"
  by (cases r; cases r'; cases r'')
     (simp_all add: load_def load_begin_def load_resume_def loadProjects_def loadProjects_begin_def
      loadProjects_resume_def loadGlobalMcps_def loadGlobalMcps_begin_def loadGlobalMcps_resume_def)

section \<open>MCP library: mutations\<close>

text \<open>
  Claim C4. When the backend call of \<open>create\<close>, \<open>update\<close>, \<open>delete\<close>, \<open>duplicate\<close> or
  \<open>toggleGlobal\<close> is rejected with \<open>e\<close>, the method throws \<open>e\<close> and the store, the cached
  list with it, is the one from before the call.
\<close>

theorem mutation_failure_propagates:
  "create (Inl e) s = (s, Inl e)
   \<and> update i (Inl e) s = (s, Inl e)
   \<and> delete i (Inl e) s = (s, Inl e)
   \<and> duplicate i (Inl e) s = (s, Inl e)
   \<and> toggleGlobal i enabled (Inl e) s = (s, Inl e)"
  by (simp add: create_def update_def delete_def duplicate_def toggleGlobal_def)

text \<open>
  Claim C5. After a successful \<open>toggleGlobal(id, enabled)\<close> the list has the length it
  had; at every position, an entity with that id is the old one with only
  \<open>isEnabledGlobal\<close> set to \<open>enabled\<close>, and an entity with another id is the old one.
\<close>

theorem toggleGlobal_frame:
  "snd (toggleGlobal i enabled (Inr ()) s) = Inr ()
   \<and> length (mcps (fst (toggleGlobal i enabled (Inr ()) s))) = length (mcps s)
   \<and> (\<forall>k < length (mcps s).
         (id' (mcps s ! k) = i \<longrightarrow>
            mcps (fst (toggleGlobal i enabled (Inr ()) s)) ! k
              = (mcps s ! k)\<lparr>isEnabledGlobal := enabled\<rparr>)
         \<and> (id' (mcps s ! k) \<noteq> i \<longrightarrow>
            mcps (fst (toggleGlobal i enabled (Inr ()) s)) ! k = mcps s ! k))"
  by (simp add: toggleGlobal_def)

theorem toggleGlobal_frame_witness:
  "length (mcps (fst (toggleGlobal 2 True (Inr ()) sampleLibrary))) = 4
   \<and> id' (mcps sampleLibrary ! 1) = 2
   \<and> mcps (fst (toggleGlobal 2 True (Inr ()) sampleLibrary)) ! 1 = mcpB\<lparr>isEnabledGlobal := True\<rparr>
   \<and> id' (mcps sampleLibrary ! 0) \<noteq> 2
   \<and> mcps (fst (toggleGlobal 2 True (Inr ()) sampleLibrary)) ! 0 = mcpA"
proof -
  have m: "mcps sampleLibrary = [mcpA, mcpB, mcpC, mcpD]"
    by (simp add: sampleLibrary_def)
  have i: "id' mcpA = 1" "id' mcpB = 2"
    by (simp_all add: mcpA_def mcpB_def)
  from toggleGlobal_frame[of 2 True sampleLibrary]
  have len: "length (mcps (fst (toggleGlobal 2 True (Inr ()) sampleLibrary))) = 4"
    and pt: "\<And>k. k < 4 \<Longrightarrow>
         (id' (mcps sampleLibrary ! k) = 2 \<longrightarrow>
            mcps (fst (toggleGlobal 2 True (Inr ()) sampleLibrary)) ! k
              = (mcps sampleLibrary ! k)\<lparr>isEnabledGlobal := True\<rparr>)
         \<and> (id' (mcps sampleLibrary ! k) \<noteq> 2 \<longrightarrow>
            mcps (fst (toggleGlobal 2 True (Inr ()) sampleLibrary)) ! k = mcps sampleLibrary ! k)"
    by (simp_all add: m)
  from pt[of 0] pt[of 1] len show ?thesis
    by (simp add: m i)
qed

section \<open>MCP library: the filtered view\<close>


























section \<open>Release notes: the last-seen marker\<close>

text \<open>
  Claim C7. With the application version at hand: when the storage holds no last-seen
  marker, \<open>checkForWhatsNew\<close> stores the current version as the marker and changes
  nothing else, so \<open>isOpen\<close> is what it was and no request is sent; when the marker is
  the current version, the whole world is left as it was.
\<close>

theorem checkForWhatsNew_baseline:
  assumes "getVersion e = Inr v"
  shows "(localStorage s LAST_SEEN_VERSION_KEY = None \<longrightarrow>
            checkForWhatsNew e s = s\<lparr>localStorage := (localStorage s)(LAST_SEEN_VERSION_KEY \<mapsto> v)\<rparr>
            \<and> isOpen (checkForWhatsNew e s) = isOpen s
            \<and> requests (checkForWhatsNew e s) = requests s
            \<and> localStorage (checkForWhatsNew e s) LAST_SEEN_VERSION_KEY = Some v)
       \<and> (localStorage s LAST_SEEN_VERSION_KEY = Some v \<longrightarrow> checkForWhatsNew e s = s)"
proof -
  have "(localStorage s)(LAST_SEEN_VERSION_KEY \<mapsto> []) = localStorage s"
    if "localStorage s LAST_SEEN_VERSION_KEY = Some []"
    using that by (simp add: fun_upd_idem)
  then show ?thesis
    using assms by (auto simp: checkForWhatsNew_def Let_def)
qed

theorem checkForWhatsNew_baseline_witness:
  "getVersion sampleEnv = Inr ''1.2.0''
   \<and> localStorage freshWorld LAST_SEEN_VERSION_KEY = None
   \<and> checkForWhatsNew sampleEnv freshWorld
       = freshWorld\<lparr>localStorage := [LAST_SEEN_VERSION_KEY \<mapsto> ''1.2.0'']\<rparr>
   \<and> isOpen (checkForWhatsNew sampleEnv freshWorld) = False
   \<and> requests (checkForWhatsNew sampleEnv freshWorld) = []
   \<and> localStorage seenWorld LAST_SEEN_VERSION_KEY = Some ''1.2.0''
   \<and> checkForWhatsNew sampleEnv seenWorld = seenWorld"
proof -
  have g: "getVersion sampleEnv = Inr ''1.2.0''"
    by (simp add: sampleEnv_def)
  have f: "localStorage freshWorld = Map.empty" "isOpen freshWorld = False" "requests freshWorld = []"
    by (simp_all add: freshWorld_def)
  have n: "localStorage seenWorld LAST_SEEN_VERSION_KEY = Some ''1.2.0''"
    by (simp add: seenWorld_def)
  from checkForWhatsNew_baseline[OF g, of freshWorld] checkForWhatsNew_baseline[OF g, of seenWorld]
  show ?thesis
    using g n by (simp add: f)
qed

text \<open>
  Claim C8. \<open>dismiss\<close> closes the notification. When a release is held, the marker
  becomes that release's version; \<open>dismiss\<close> does not read the application's version at
  all. When none is held, the storage is left alone.
\<close>

theorem dismiss_marker:
  "isOpen (dismiss s) = False
   \<and> (\<forall>r. release s = Some r \<longrightarrow>
         localStorage (dismiss s) LAST_SEEN_VERSION_KEY = Some (version r))
   \<and> (release s = None \<longrightarrow> localStorage (dismiss s) = localStorage s)"
  by (simp add: dismiss_def Let_def split: option.splits)

theorem dismiss_marker_witness:
  "isOpen seenWorld = True
   \<and> map_option version (release seenWorld) = Some ''1.1.0''
   \<and> localStorage seenWorld LAST_SEEN_VERSION_KEY = Some ''1.2.0''
   \<and> isOpen (dismiss seenWorld) = False
   \<and> localStorage (dismiss seenWorld) LAST_SEEN_VERSION_KEY = Some ''1.1.0''
   \<and> release freshWorld = None
   \<and> localStorage (dismiss freshWorld) = localStorage freshWorld"
proof -
  have r: "release seenWorld
      = Some \<lparr>version = ''1.1.0'', name = ''Version 1.1.0'', body = ''Fixes'',
               publishedAt = ''2024-12-01T00:00:00.000Z'',
               htmlUrl = ''https://github.com/tylergraydev/claude-code-tool-manager/releases''\<rparr>"
    and o: "isOpen seenWorld = True"
    and n: "localStorage seenWorld LAST_SEEN_VERSION_KEY = Some ''1.2.0''"
    by (simp_all add: seenWorld_def)
  have f: "release freshWorld = None"
    by (simp add: freshWorld_def)
  from dismiss_marker[of seenWorld] dismiss_marker[of freshWorld] show ?thesis
    using o n by (simp add: r f)
qed

section \<open>The console interceptor: install and uninstall\<close>

text \<open>
  Claim C9. Installing when installed and uninstalling when not installed leave the
  module's state as it is: console functions, flag and all. Uninstalling after
  installing puts the four saved functions of \<open>originalConsole\<close> back as \<open>console.log\<close>,
  \<open>warn\<close>, \<open>error\<close> and \<open>info\<close>, and \<open>isInterceptorInstalled()\<close> is false. Installing when
  not installed does set the flag.
\<close>

theorem interceptor_install_uninstall:
  "(interceptorInstalled s \<longrightarrow> installDebugInterceptor s = s)
   \<and> (\<not> interceptorInstalled s \<longrightarrow> uninstallDebugInterceptor s = s)
   \<and> Console.log (console (uninstallDebugInterceptor (installDebugInterceptor s)))
        = Console.log (originalConsole s)
   \<and> Console.warn (console (uninstallDebugInterceptor (installDebugInterceptor s)))
        = Console.warn (originalConsole s)
   \<and> Console.error (console (uninstallDebugInterceptor (installDebugInterceptor s)))
        = Console.error (originalConsole s)
   \<and> Console.info (console (uninstallDebugInterceptor (installDebugInterceptor s)))
        = Console.info (originalConsole s)
   \<and> \<not> isInterceptorInstalled (uninstallDebugInterceptor (installDebugInterceptor s))
   \<and> isInterceptorInstalled (installDebugInterceptor s)"
  by (simp add: installDebugInterceptor_def uninstallDebugInterceptor_def isInterceptorInstalled_def)

theorem interceptor_install_uninstall_witness:
  "\<not> interceptorInstalled samplePage
   \<and> uninstallDebugInterceptor samplePage = samplePage
   \<and> interceptorInstalled (installDebugInterceptor samplePage)
   \<and> installDebugInterceptor (installDebugInterceptor samplePage) = installDebugInterceptor samplePage
   \<and> Console.log (console (uninstallDebugInterceptor (installDebugInterceptor samplePage)))
        = Console.log (originalConsole samplePage)
   \<and> write_frontend_log
        (Console.log (console (installDebugInterceptor samplePage)) [JString ''hi'', JError ''E'' ''m'']
           (runtime samplePage)) = [(''INFO'', ''hi E: m'')]
   \<and> write_frontend_log
        (Console.log (console (uninstallDebugInterceptor (installDebugInterceptor samplePage)))
           [JString ''hi'', JError ''E'' ''m''] (runtime samplePage)) = []"
proof -
  have n: "\<not> interceptorInstalled samplePage"
    by (simp add: samplePage_def)
  have i: "interceptorInstalled (installDebugInterceptor samplePage)"
    by (simp add: samplePage_def installDebugInterceptor_def)
  have w: "write_frontend_log
        (Console.log (console (installDebugInterceptor samplePage)) [JString ''hi'', JError ''E'' ''m'']
           (runtime samplePage)) = [(''INFO'', ''hi E: m'')]"
    by (simp add: samplePage_def installDebugInterceptor_def wrapper_def sendToBackend_def
        formatArgs_def)
  have o: "write_frontend_log
        (Console.log (originalConsole samplePage) [JString ''hi'', JError ''E'' ''m'']
           (runtime samplePage)) = []"
    by (simp add: samplePage_def)
  from interceptor_install_uninstall[of samplePage]
    interceptor_install_uninstall[of "installDebugInterceptor samplePage"]
  show ?thesis
    using n i w o by simp
qed

section \<open>MCP library: an identifier that is not cached\<close>

lemma map_absent: "i \<notin> id' ` set xs \<Longrightarrow> map (\<lambda>m. if id' m = i then f m else m) xs = xs"
  by (induction xs) auto

lemma filter_absent: "i \<notin> id' ` set xs \<Longrightarrow> filter (\<lambda>m. id' m \<noteq> i) xs = xs"
  by (induction xs) auto

text \<open>
  Claim C10. When no cached entity has the identifier, a successful \<open>update\<close>,
  \<open>delete\<close> or \<open>toggleGlobal\<close> with it leaves the store, and so the cached list with its
  length, entries and order, as it was: nothing is appended.
\<close>

theorem absent_id_unchanged:
  assumes "i \<notin> id' ` set (mcps s)"
  shows "update i (Inr mcp) s = (s, Inr mcp)
     \<and> delete i (Inr ()) s = (s, Inr ())
     \<and> toggleGlobal i enabled (Inr ()) s = (s, Inr ())"
  using assms map_absent[of i "mcps s" "\<lambda>m. mcp"]
    map_absent[of i "mcps s" "\<lambda>m. m\<lparr>isEnabledGlobal := enabled\<rparr>"] filter_absent[of i "mcps s"]
  by (simp add: update_def delete_def toggleGlobal_def)

theorem absent_id_unchanged_witness:
  "99 \<notin> id' ` set (mcps sampleLibrary)
   \<and> update 99 (Inr mcpC) sampleLibrary = (sampleLibrary, Inr mcpC)
   \<and> delete 99 (Inr ()) sampleLibrary = (sampleLibrary, Inr ())
   \<and> toggleGlobal 99 True (Inr ()) sampleLibrary = (sampleLibrary, Inr ())"
proof -
  have h: "99 \<notin> id' ` set (mcps sampleLibrary)"
    by (simp add: sampleLibrary_def mcpA_def mcpB_def mcpC_def mcpD_def)
  from absent_id_unchanged[OF h] h show ?thesis
    by simp
qed

end
